theory Spec2Isabelle
  imports Main "HOL-Library.Word"
begin

section \<open>The message service of netlify/functions/server.js\<close>

text \<open>
  The service keeps one text message in the table \<open>messages\<close> of an SQLite file and
  serves it on \<open>GET /api/message\<close> and \<open>POST /api/message\<close>. The embedding follows
  \<open>server.js\<close>: \<open>initializeDb\<close>, the two route handlers and the exported \<open>handler\<close>.
  The SQLite driver is not part of the repository; the statements the source issues are
  modelled on a table of rows that holds text, and the error a statement may report from
  the storage medium is an argument of the operation that issues it.
\<close>

subsection \<open>JavaScript strings and values\<close>

text \<open>A JavaScript string is a sequence of UTF-16 code units.\<close>

type_synonym jsstr = "16 word list"

text \<open>The string literals of the source are ASCII.\<close>

definition js :: "string \<Rightarrow> jsstr" where
  "js s = map of_char s"

text \<open>
  \<open>String.prototype.trim\<close> removes the code units of ECMAScript's WhiteSpace and
  LineTerminator productions from both ends: TAB, LF, VT, FF, CR, SPACE, NBSP, the
  category Zs (U+1680, U+2000 to U+200A, U+202F, U+205F, U+3000), LS, PS and U+FEFF.
\<close>

definition isWhiteSpace :: "16 word \<Rightarrow> bool" where
  "isWhiteSpace c \<longleftrightarrow>
     c \<in> set [0x0009, 0x000A, 0x000B, 0x000C, 0x000D, 0x0020, 0x00A0, 0x1680,
              0x2000, 0x2001, 0x2002, 0x2003, 0x2004, 0x2005, 0x2006, 0x2007,
              0x2008, 0x2009, 0x200A, 0x2028, 0x2029, 0x202F, 0x205F, 0x3000, 0xFEFF]"

definition trim :: "jsstr \<Rightarrow> jsstr" where
  "trim s = rev (dropWhile isWhiteSpace (rev (dropWhile isWhiteSpace s)))"

text \<open>
  The driver binds a string parameter as UTF-8 text and \<open>db.get\<close> decodes the stored
  text again. A surrogate code unit that is not part of a pair has no UTF-8 encoding and
  becomes U+FFFD on the way; every other code unit comes back as it went in. On code
  units this is ECMAScript's \<open>String.prototype.toWellFormed\<close>.
\<close>

definition isLeadingSurrogate :: "16 word \<Rightarrow> bool" where
  "isLeadingSurrogate c \<longleftrightarrow> 0xD800 \<le> c \<and> c \<le> 0xDBFF"

definition isTrailingSurrogate :: "16 word \<Rightarrow> bool" where
  "isTrailingSurrogate c \<longleftrightarrow> 0xDC00 \<le> c \<and> c \<le> 0xDFFF"

fun toWellFormed :: "jsstr \<Rightarrow> jsstr" where
  "toWellFormed [] = []"
| "toWellFormed [c] =
     (if isLeadingSurrogate c \<or> isTrailingSurrogate c then [0xFFFD] else [c])"
| "toWellFormed (c # d # cs) =
     (if isLeadingSurrogate c \<and> isTrailingSurrogate d then c # d # toWellFormed cs
      else if isLeadingSurrogate c \<or> isTrailingSurrogate c
      then 0xFFFD # toWellFormed (d # cs)
      else c # toWellFormed (d # cs))"

definition isWellFormed :: "jsstr \<Rightarrow> bool" where
  "isWellFormed s \<longleftrightarrow> toWellFormed s = s"

text \<open>
  The values of a parsed JSON body, and \<open>undefined\<close> for a property that is missing.
  An object is the list of its properties. The handlers look at a number only through
  \<open>typeof\<close>, so its payload stands for the parsed number.
\<close>

datatype jsvalue =
    JUndefined
  | JNull
  | JBool bool
  | JNum int
  | JStr jsstr
  | JArr "jsvalue list"
  | JObj "(jsstr \<times> jsvalue) list"

text \<open>Reading a property: \<open>undefined\<close> when the object does not have it.\<close>

definition get_property :: "(jsstr \<times> jsvalue) list \<Rightarrow> jsstr \<Rightarrow> jsvalue" where
  "get_property obj k = (case map_of obj k of None \<Rightarrow> JUndefined | Some v \<Rightarrow> v)"

subsection \<open>The table \<open>messages\<close> and the driver's statements\<close>

text \<open>
  A row is \<open>(id, content)\<close>; \<open>id\<close> is the primary key, so a table has one row for an id
  at most, and \<open>content\<close> is the stored text as \<open>db.get\<close> hands it back. The file at
  \<open>DB_PATH\<close> either has no table \<open>messages\<close> yet (\<open>None\<close>) or holds its rows.
\<close>

type_synonym row = "int \<times> jsstr"
type_synonym table = "row list"

text \<open>
  Every statement takes the error that the medium reports for it (\<open>None\<close> when the
  medium works) and gives the \<open>err\<close> (left) or the result (right) that the driver hands
  to the callback.
\<close>

definition no_such_table :: jsstr where
  "no_such_table = js ''SQLITE_ERROR: no such table: messages''"

text \<open>\<open>CREATE TABLE IF NOT EXISTS messages (...)\<close>\<close>

definition create_table :: "jsstr option \<Rightarrow> table option \<Rightarrow> jsstr + table" where
  "create_table fault file =
     (case fault of
        Some m \<Rightarrow> Inl m
      | None \<Rightarrow> (case file of None \<Rightarrow> Inr [] | Some t \<Rightarrow> Inr t))"

text \<open>\<open>SELECT COUNT(*) as count FROM messages\<close>\<close>

definition select_count :: "jsstr option \<Rightarrow> table option \<Rightarrow> jsstr + nat" where
  "select_count fault file =
     (case fault of
        Some m \<Rightarrow> Inl m
      | None \<Rightarrow> (case file of None \<Rightarrow> Inl no_such_table | Some t \<Rightarrow> Inr (length t)))"

text \<open>
  \<open>INSERT INTO messages (id, content) VALUES (?, ?)\<close>: a taken id is refused; the
  content is bound as text.
\<close>

definition insert_row :: "jsstr option \<Rightarrow> table option \<Rightarrow> int \<Rightarrow> jsstr \<Rightarrow> jsstr + table" where
  "insert_row fault file i c =
     (case fault of
        Some m \<Rightarrow> Inl m
      | None \<Rightarrow>
          (case file of
             None \<Rightarrow> Inl no_such_table
           | Some t \<Rightarrow>
               if i \<in> fst ` set t
               then Inl (js ''SQLITE_CONSTRAINT: UNIQUE constraint failed: messages.id'')
               else Inr (t @ [(i, toWellFormed c)])))"

text \<open>
  \<open>INSERT OR REPLACE INTO messages (id, content) VALUES (?, ?)\<close>: the row holding the
  id, if there is one, is deleted and the new row is inserted, its content bound as text.
\<close>

definition insert_or_replace ::
  "jsstr option \<Rightarrow> table option \<Rightarrow> int \<Rightarrow> jsstr \<Rightarrow> jsstr + table" where
  "insert_or_replace fault file i c =
     (case fault of
        Some m \<Rightarrow> Inl m
      | None \<Rightarrow>
          (case file of
             None \<Rightarrow> Inl no_such_table
           | Some t \<Rightarrow> Inr (filter (\<lambda>r. fst r \<noteq> i) t @ [(i, toWellFormed c)])))"

text \<open>
  \<open>SELECT content FROM messages WHERE id = 1\<close> through \<open>db.get\<close>: the first matching
  row, or \<open>undefined\<close> (\<open>None\<close>) when no row matches.
\<close>

definition select_content :: "jsstr option \<Rightarrow> table option \<Rightarrow> jsstr + jsstr option" where
  "select_content fault file =
     (case fault of
        Some m \<Rightarrow> Inl m
      | None \<Rightarrow> (case file of None \<Rightarrow> Inl no_such_table | Some t \<Rightarrow> Inr (map_of t 1)))"

subsection \<open>\<open>initializeDb\<close>\<close>

text \<open>The state of the promise that \<open>initializeDb\<close> returns, once it is settled.\<close>

datatype promise = Fulfilled | Rejected jsstr

text \<open>What the medium reports to the four callbacks of \<open>initializeDb\<close>.\<close>

record faults =
  open_err :: "jsstr option"
  create_err :: "jsstr option"
  count_err :: "jsstr option"
  insert_err :: "jsstr option"

definition default_message :: jsstr where
  "default_message = js ''Hello Full Stack World!''"

definition initializeDb :: "faults \<Rightarrow> table option \<Rightarrow> promise \<times> table option" where
  "initializeDb fs file =
     (case open_err fs of
        Some m \<Rightarrow> (Rejected (js ''Failed to open database: '' @ m), file)
      | None \<Rightarrow>
          (case create_table (create_err fs) file of
             Inl m \<Rightarrow> (Rejected (js ''Failed to create table: '' @ m), file)
           | Inr t \<Rightarrow>
               (case select_count (count_err fs) (Some t) of
                  Inl m \<Rightarrow> (Rejected (js ''Failed to check message count: '' @ m), Some t)
                | Inr count \<Rightarrow>
                    if count = 0
                    then (case insert_row (insert_err fs) (Some t) 1 default_message of
                            Inl m \<Rightarrow>
                              (Rejected (js ''Failed to insert default message: '' @ m), Some t)
                          | Inr t' \<Rightarrow> (Fulfilled, Some t'))
                    else (Fulfilled, Some t))))"

subsection \<open>The server\<close>

text \<open>
  The module's state: the table in the file that \<open>db\<close> is connected to, and
  \<open>dbInitializationPromise\<close>, set once when the module is loaded.
\<close>

record server =
  messages :: "table option"
  dbInitializationPromise :: promise

definition load :: "faults \<Rightarrow> table option \<Rightarrow> server" where
  "load fs file =
     (case initializeDb fs file of
        (p, file') \<Rightarrow> \<lparr>messages = file', dbInitializationPromise = p\<rparr>)"

text \<open>
  A request to \<open>/api/message\<close>; \<open>body\<close> is \<open>req.body\<close>, the properties of the object
  that \<open>express.json()\<close> parsed from the request.
\<close>

datatype http_method = GET | POST

record request =
  req_method :: http_method
  body :: "(jsstr \<times> jsvalue) list"

text \<open>
  What handling a request gives: a response with its status and JSON body, or no
  response because the handler's promise is rejected with an error.
\<close>

datatype result = Response nat jsvalue | Throws jsstr

definition error_body :: "string \<Rightarrow> jsstr \<Rightarrow> jsvalue" where
  "error_body e d = JObj [(js ''error'', JStr (js e)), (js ''details'', JStr d)]"

text \<open>\<open>app.get('/api/message', ...)\<close>; \<open>err\<close> is what the medium reports to \<open>db.get\<close>.\<close>

definition get_message :: "request \<Rightarrow> jsstr option \<Rightarrow> server \<Rightarrow> result \<times> server" where
  "get_message req err s =
     (case dbInitializationPromise s of
        Rejected m \<Rightarrow> (Response 500 (error_body ''Failed to retrieve message'' m), s)
      | Fulfilled \<Rightarrow>
          (case select_content err (messages s) of
             Inl m \<Rightarrow> (Response 500 (error_body ''Failed to retrieve message'' m), s)
           | Inr (Some content) \<Rightarrow>
               (Response 200 (JObj [(js ''message'', JStr content)]), s)
           | Inr None \<Rightarrow>
               (Response 404
                  (error_body ''Message not found''
                     (js ''No message found with ID 1. Database might be uninitialized or corrupted.'')),
                s)))"

text \<open>\<open>app.post('/api/message', ...)\<close>; \<open>err\<close> is what the medium reports to \<open>db.run\<close>.\<close>

definition post_message :: "request \<Rightarrow> jsstr option \<Rightarrow> server \<Rightarrow> result \<times> server" where
  "post_message req err s =
     (case dbInitializationPromise s of
        Rejected m \<Rightarrow> (Response 500 (error_body ''Failed to update message'' m), s)
      | Fulfilled \<Rightarrow>
          (case get_property (body req) (js ''newMessage'') of
             JStr newMessage \<Rightarrow>
               if length (trim newMessage) = 0
               then (Response 400
                       (error_body ''Bad Request''
                          (js ''newMessage is required and must be a non-empty string.'')),
                     s)
               else (case insert_or_replace err (messages s) 1 (trim newMessage) of
                       Inl m \<Rightarrow> (Response 500 (error_body ''Failed to update message'' m), s)
                     | Inr t \<Rightarrow>
                         (Response 200
                            (JObj [(js ''status'', JStr (js ''success'')),
                                   (js ''message'', JStr (js ''Message updated successfully'')),
                                   (js ''updatedMessage'', JStr (trim newMessage))]),
                          s\<lparr>messages := Some t\<rparr>))
           | _ \<Rightarrow>
               (Response 400
                  (error_body ''Bad Request''
                     (js ''newMessage is required and must be a non-empty string.'')),
                s)))"

text \<open>
  \<open>module.exports.handler\<close>: it awaits \<open>dbInitializationPromise\<close> outside any \<open>try\<close>,
  so a rejected promise rejects the handler before the Express application is called.
\<close>

definition handler :: "request \<Rightarrow> jsstr option \<Rightarrow> server \<Rightarrow> result \<times> server" where
  "handler req err s =
     (case dbInitializationPromise s of
        Rejected m \<Rightarrow> (Throws m, s)
      | Fulfilled \<Rightarrow>
          (case req_method req of
             GET \<Rightarrow> get_message req err s
           | POST \<Rightarrow> post_message req err s))"

text \<open>A sequence of requests, each with what the medium reports to its statement.\<close>

fun run :: "(request \<times> jsstr option) list \<Rightarrow> server \<Rightarrow> server" where
  "run [] s = s"
| "run ((req, err) # rest) s = run rest (snd (handler req err s))"

text \<open>
  The state the service is meant to keep: the table holds the row with id 1 and no
  other, and its content is not the empty string.
\<close>

fun single_message :: "table option \<Rightarrow> bool" where
  "single_message (Some [(i, c)]) = (i = 1 \<and> c \<noteq> [])"
| "single_message _ = False"

section \<open>Properties\<close>

subsection \<open>Auxiliary facts\<close>

lemma trim_Nil_iff: "trim s = [] \<longleftrightarrow> (\<forall>c\<in>set s. isWhiteSpace c)"
proof
  assume "trim s = []"
  then have all: "\<forall>c\<in>set (dropWhile isWhiteSpace s). isWhiteSpace c"
    by (simp add: trim_def)
  have "dropWhile isWhiteSpace s = []"
  proof (rule ccontr)
    assume ne: "dropWhile isWhiteSpace s \<noteq> []"
    then have "\<not> isWhiteSpace (hd (dropWhile isWhiteSpace s))"
      by (rule hd_dropWhile)
    moreover from ne have "hd (dropWhile isWhiteSpace s) \<in> set (dropWhile isWhiteSpace s)"
      by simp
    ultimately show False using all by blast
  qed
  then show "\<forall>c\<in>set s. isWhiteSpace c"
    by simp
next
  assume "\<forall>c\<in>set s. isWhiteSpace c"
  then show "trim s = []"
    by (auto simp add: trim_def dest: set_dropWhileD)
qed

lemma whitespace_not_surrogate:
  "isWhiteSpace c \<Longrightarrow> \<not> isLeadingSurrogate c \<and> \<not> isTrailingSurrogate c"
  by (auto simp add: isWhiteSpace_def isLeadingSurrogate_def isTrailingSurrogate_def)

lemma toWellFormed_length: "length (toWellFormed s) = length s"
  by (induction s rule: toWellFormed.induct) auto

lemma toWellFormed_Nil_iff: "toWellFormed s = [] \<longleftrightarrow> s = []"
  using toWellFormed_length [of s] by (metis length_0_conv)

lemma toWellFormed_default: "toWellFormed default_message = default_message"
  by (simp add: default_message_def js_def isLeadingSurrogate_def isTrailingSurrogate_def)

lemma rev_dropWhile_takeWhile:
  "rev (dropWhile P xs) @ rev (takeWhile P xs) = rev xs"
  by (simp only: rev_append [symmetric] takeWhile_dropWhile_id)

lemma dropWhile_trim:
  "dropWhile isWhiteSpace s =
     trim s @ rev (takeWhile isWhiteSpace (rev (dropWhile isWhiteSpace s)))"
  using rev_dropWhile_takeWhile [of isWhiteSpace "rev (dropWhile isWhiteSpace s)"]
  by (simp add: trim_def)

lemma trim_decompose:
  "\<exists>a b. s = a @ trim s @ b \<and> list_all isWhiteSpace a \<and> list_all isWhiteSpace b"
proof -
  let ?d = "dropWhile isWhiteSpace s"
  let ?a = "takeWhile isWhiteSpace s"
  let ?b = "rev (takeWhile isWhiteSpace (rev ?d))"
  have d: "?d = trim s @ ?b"
    by (rule dropWhile_trim)
  have "s = ?a @ ?d"
    by simp
  with d have "s = ?a @ trim s @ ?b"
    by simp
  moreover have "list_all isWhiteSpace ?a"
    by (auto simp add: list_all_iff dest: set_takeWhileD)
  moreover have "list_all isWhiteSpace ?b"
    by (auto simp add: list_all_iff dest: set_takeWhileD)
  ultimately show ?thesis
    by blast
qed

lemma trim_ends:
  assumes "trim s \<noteq> []"
  shows "\<not> isWhiteSpace (hd (trim s)) \<and> \<not> isWhiteSpace (last (trim s))"
proof -
  let ?d = "dropWhile isWhiteSpace s"
  let ?e = "dropWhile isWhiteSpace (rev ?d)"
  have e: "?e \<noteq> []"
    using assms by (simp add: trim_def del: dropWhile_eq_Nil_conv)
  then have "\<not> isWhiteSpace (hd ?e)"
    by (rule hd_dropWhile)
  moreover have "last (trim s) = hd ?e"
    using e by (simp add: trim_def last_rev del: dropWhile_eq_Nil_conv)
  ultimately have l: "\<not> isWhiteSpace (last (trim s))"
    by simp
  have d: "?d = trim s @ rev (takeWhile isWhiteSpace (rev ?d))"
    by (rule dropWhile_trim)
  then have "?d \<noteq> []"
    using assms by (metis append_is_Nil_conv)
  then have "\<not> isWhiteSpace (hd ?d)"
    by (rule hd_dropWhile)
  moreover have "hd ?d = hd (trim s)"
    using d assms by (metis hd_append2)
  ultimately show ?thesis
    using l by simp
qed

lemma toWellFormed_Cons:
  "\<not> isLeadingSurrogate c \<Longrightarrow> \<not> isTrailingSurrogate c \<Longrightarrow>
   toWellFormed (c # cs) = c # toWellFormed cs"
  by (cases cs) simp_all

lemma toWellFormed_snoc:
  "\<not> isLeadingSurrogate c \<Longrightarrow> \<not> isTrailingSurrogate c \<Longrightarrow>
   toWellFormed (xs @ [c]) = toWellFormed xs @ [c]"
proof (induction xs rule: toWellFormed.induct)
  case 1
  then show ?case by simp
next
  case (2 x)
  then show ?case by simp
next
  case (3 x y zs)
  then show ?case
    by (cases zs) auto
qed

lemma isWellFormed_tl:
  assumes "isWellFormed (c # cs)" and "isWhiteSpace c"
  shows "isWellFormed cs"
  using assms whitespace_not_surrogate [of c]
  by (simp add: isWellFormed_def toWellFormed_Cons)

lemma isWellFormed_butlast:
  assumes "isWellFormed (xs @ [c])" and "isWhiteSpace c"
  shows "isWellFormed xs"
  using assms whitespace_not_surrogate [of c]
  by (simp add: isWellFormed_def toWellFormed_snoc)

lemma isWellFormed_dropWhile:
  "isWellFormed s \<Longrightarrow> isWellFormed (dropWhile isWhiteSpace s)"
  by (induction s) (auto dest: isWellFormed_tl)

lemma isWellFormed_dropWhile_end:
  "isWellFormed s \<Longrightarrow> isWellFormed (rev (dropWhile isWhiteSpace (rev s)))"
  by (induction s rule: rev_induct) (auto dest: isWellFormed_butlast)

lemma isWellFormed_trim: "isWellFormed s \<Longrightarrow> isWellFormed (trim s)"
  by (simp add: trim_def isWellFormed_dropWhile isWellFormed_dropWhile_end)

lemma map_of_replaced: "map_of (filter (\<lambda>r. fst r \<noteq> i) t @ [(i, c)]) i = Some c"
proof -
  have "map_of (filter (\<lambda>r. fst r \<noteq> i) t) i = None"
    by (induction t) auto
  then show ?thesis
    by (simp add: map_add_def)
qed

lemma handler_GET:
  "req_method req = GET \<Longrightarrow> dbInitializationPromise sv = Fulfilled \<Longrightarrow>
   handler req err sv = get_message req err sv"
  by (simp add: handler_def)

lemma handler_POST:
  "req_method req = POST \<Longrightarrow> dbInitializationPromise sv = Fulfilled \<Longrightarrow>
   handler req err sv = post_message req err sv"
  by (simp add: handler_def)

lemma get_message_state: "snd (get_message req err sv) = sv"
  by (simp add: get_message_def split: promise.splits sum.splits option.splits)

lemma post_valid:
  assumes "get_property (body req) (js ''newMessage'') = JStr s" and "trim s \<noteq> []"
    and "dbInitializationPromise sv = Fulfilled" and "messages sv = Some t"
  shows "post_message req None sv =
     (Response 200
        (JObj [(js ''status'', JStr (js ''success'')),
               (js ''message'', JStr (js ''Message updated successfully'')),
               (js ''updatedMessage'', JStr (trim s))]),
      sv\<lparr>messages := Some (filter (\<lambda>r. fst r \<noteq> 1) t @ [(1, toWellFormed (trim s))])\<rparr>)"
  using assms by (simp add: post_message_def insert_or_replace_def)

subsection \<open>Writing and reading back\<close>

text \<open>
  Claim C1, as the code has it. Once initialization has succeeded, for every string \<open>s\<close>
  that is non-empty after trimming, a POST with \<open>newMessage = s\<close> whose write the medium
  accepts, followed by a GET whose read the medium serves, answers 200 with the text that
  was stored for \<open>s.trim()\<close>: \<open>s.trim()\<close> with every unpaired surrogate replaced by U+FFFD.
  It is exactly \<open>s.trim()\<close> when that has no unpaired surrogate, which is so whenever \<open>s\<close>
  has none.
\<close>

theorem post_then_get_round_trip:
  assumes "req_method req = POST"
    and "get_property (body req) (js ''newMessage'') = JStr s"
    and "trim s \<noteq> []"
    and "dbInitializationPromise sv = Fulfilled"
    and "messages sv = Some t"
    and "req_method req' = GET"
  shows "fst (handler req' None (snd (handler req None sv))) =
           Response 200 (JObj [(js ''message'', JStr (toWellFormed (trim s)))])
       \<and> (isWellFormed (trim s) \<longrightarrow>
            fst (handler req' None (snd (handler req None sv))) =
              Response 200 (JObj [(js ''message'', JStr (trim s))]))
       \<and> (isWellFormed s \<longrightarrow>
            fst (handler req' None (snd (handler req None sv))) =
              Response 200 (JObj [(js ''message'', JStr (trim s))]))"
proof -
  let ?sv' = "sv\<lparr>messages := Some (filter (\<lambda>r. fst r \<noteq> 1) t @ [(1, toWellFormed (trim s))])\<rparr>"
  have "snd (handler req None sv) = ?sv'"
    using assms by (simp add: handler_POST post_valid)
  moreover have "dbInitializationPromise ?sv' = Fulfilled"
    using assms by simp
  moreover have "select_content None (messages ?sv') = Inr (Some (toWellFormed (trim s)))"
    by (simp add: select_content_def map_of_replaced del: map_of_append)
  ultimately have stored: "fst (handler req' None (snd (handler req None sv))) =
      Response 200 (JObj [(js ''message'', JStr (toWellFormed (trim s)))])"
    using assms(6) by (simp add: handler_GET get_message_def)
  have "toWellFormed (trim s) = trim s" if "isWellFormed (trim s)"
    using that by (simp add: isWellFormed_def)
  moreover have "isWellFormed (trim s)" if "isWellFormed s"
    using that by (rule isWellFormed_trim)
  ultimately show ?thesis
    using stored by simp
qed

theorem post_then_get_round_trip_witness:
  "req_method \<lparr>req_method = POST, body = [(js ''newMessage'', JStr (js ''  Hi there ''))]\<rparr> = POST
   \<and> get_property (body \<lparr>req_method = POST, body = [(js ''newMessage'', JStr (js ''  Hi there ''))]\<rparr>)
         (js ''newMessage'') = JStr (js ''  Hi there '')
   \<and> trim (js ''  Hi there '') \<noteq> []
   \<and> isWellFormed (js ''  Hi there '')
   \<and> dbInitializationPromise
         \<lparr>messages = Some [(1, default_message)], dbInitializationPromise = Fulfilled\<rparr> = Fulfilled
   \<and> messages \<lparr>messages = Some [(1, default_message)], dbInitializationPromise = Fulfilled\<rparr>
         = Some [(1, default_message)]
   \<and> req_method \<lparr>req_method = GET, body = []\<rparr> = GET
   \<and> fst (handler \<lparr>req_method = GET, body = []\<rparr> None
          (snd (handler \<lparr>req_method = POST, body = [(js ''newMessage'', JStr (js ''  Hi there ''))]\<rparr>
                  None \<lparr>messages = Some [(1, default_message)], dbInitializationPromise = Fulfilled\<rparr>)))
       = Response 200 (JObj [(js ''message'', JStr (js ''Hi there''))])"
proof -
  have tr: "trim (js ''  Hi there '') = js ''Hi there''"
    by (simp add: trim_def js_def isWhiteSpace_def)
  have gp: "get_property (body \<lparr>req_method = POST, body = [(js ''newMessage'', JStr (js ''  Hi there ''))]\<rparr>)
         (js ''newMessage'') = JStr (js ''  Hi there '')"
    by (simp add: get_property_def)
  have ne: "trim (js ''  Hi there '') \<noteq> []"
    by (simp add: tr) (simp add: js_def)
  have wf: "isWellFormed (js ''  Hi there '')"
    by (simp add: isWellFormed_def js_def isLeadingSurrogate_def isTrailingSurrogate_def)
  have m: "req_method \<lparr>req_method = POST, body = [(js ''newMessage'', JStr (js ''  Hi there ''))]\<rparr> = POST"
    by simp
  have g: "req_method \<lparr>req_method = GET, body = []\<rparr> = GET"
    by simp
  have f: "dbInitializationPromise
         \<lparr>messages = Some [(1, default_message)], dbInitializationPromise = Fulfilled\<rparr> = Fulfilled"
    by simp
  have t: "messages \<lparr>messages = Some [(1, default_message)], dbInitializationPromise = Fulfilled\<rparr>
         = Some [(1, default_message)]"
    by simp
  note round = post_then_get_round_trip [OF m gp ne f t g]
  from round [THEN conjunct2, THEN conjunct2] wf
  have "fst (handler \<lparr>req_method = GET, body = []\<rparr> None
          (snd (handler \<lparr>req_method = POST, body = [(js ''newMessage'', JStr (js ''  Hi there ''))]\<rparr>
                  None \<lparr>messages = Some [(1, default_message)], dbInitializationPromise = Fulfilled\<rparr>)))
       = Response 200 (JObj [(js ''message'', JStr (trim (js ''  Hi there '')))])"
    by (rule mp)
  with gp ne wf show ?thesis
    by (simp add: tr)
qed

text \<open>
  The claim as the specification words it, exactly \<open>s.trim()\<close> for every \<open>s\<close>, fails on a
  string with an unpaired surrogate: for \<open>"a\ud800b"\<close> the GET answers \<open>"a\ufffdb"\<close>.
\<close>

theorem post_then_get_round_trip_counterexample:
  "trim [0x61, 0xD800, 0x62] \<noteq> []
   \<and> fst (handler \<lparr>req_method = GET, body = []\<rparr> None
          (snd (handler \<lparr>req_method = POST, body = [(js ''newMessage'', JStr [0x61, 0xD800, 0x62])]\<rparr>
                  None \<lparr>messages = Some [(1, default_message)], dbInitializationPromise = Fulfilled\<rparr>)))
       = Response 200 (JObj [(js ''message'', JStr [0x61, 0xFFFD, 0x62])])
   \<and> fst (handler \<lparr>req_method = GET, body = []\<rparr> None
          (snd (handler \<lparr>req_method = POST, body = [(js ''newMessage'', JStr [0x61, 0xD800, 0x62])]\<rparr>
                  None \<lparr>messages = Some [(1, default_message)], dbInitializationPromise = Fulfilled\<rparr>)))
       \<noteq> Response 200 (JObj [(js ''message'', JStr (trim [0x61, 0xD800, 0x62]))])"
proof -
  have tr: "trim [0x61, 0xD800, 0x62] = [0x61, 0xD800, 0x62]"
    by (simp add: trim_def isWhiteSpace_def)
  have "handler \<lparr>req_method = GET, body = []\<rparr> None
          (snd (handler \<lparr>req_method = POST, body = [(js ''newMessage'', JStr [0x61, 0xD800, 0x62])]\<rparr>
                  None \<lparr>messages = Some [(1, default_message)], dbInitializationPromise = Fulfilled\<rparr>))
       = (Response 200 (JObj [(js ''message'', JStr [0x61, 0xFFFD, 0x62])]),
          \<lparr>messages = Some [(1, [0x61, 0xFFFD, 0x62])], dbInitializationPromise = Fulfilled\<rparr>)"
    by (simp add: handler_def post_message_def get_message_def get_property_def
        insert_or_replace_def select_content_def tr isLeadingSurrogate_def
        isTrailingSurrogate_def)
  then show ?thesis
    by (simp add: tr)
qed

subsection \<open>Validation\<close>

lemma handler_Rejected:
  "dbInitializationPromise sv = Rejected m \<Longrightarrow> handler req err sv = (Throws m, sv)"
  by (simp add: handler_def)

lemma post_message_invalid:
  assumes "\<forall>s. get_property (body req) (js ''newMessage'') = JStr s \<longrightarrow> trim s = []"
    and "dbInitializationPromise sv = Fulfilled"
  shows "post_message req err sv =
     (Response 400
        (error_body ''Bad Request''
           (js ''newMessage is required and must be a non-empty string.'')), sv)"
  using assms by (simp add: post_message_def split: jsvalue.splits)

text \<open>
  Claim C2. A POST whose \<open>newMessage\<close> is not a string (\<open>null\<close>, missing, a number, ...)
  or is a string of whitespace only (the empty string among them) leaves the server as it
  was, so no write is issued; once initialization has succeeded the response is 400 with
  the body \<open>{ error: "Bad Request", details }\<close>, and the handler gives no other response
  to such a request.
\<close>

theorem invalid_newMessage_rejected:
  assumes "req_method req = POST"
    and "\<forall>s. get_property (body req) (js ''newMessage'') = JStr s \<longrightarrow> (\<forall>c\<in>set s. isWhiteSpace c)"
  shows "snd (handler req err sv) = sv
       \<and> (dbInitializationPromise sv = Fulfilled \<longrightarrow>
            fst (handler req err sv) =
              Response 400
                (JObj [(js ''error'', JStr (js ''Bad Request'')),
                       (js ''details'',
                        JStr (js ''newMessage is required and must be a non-empty string.''))]))
       \<and> (\<forall>status b. fst (handler req err sv) = Response status b \<longrightarrow>
            status = 400 \<and>
            b = JObj [(js ''error'', JStr (js ''Bad Request'')),
                      (js ''details'',
                       JStr (js ''newMessage is required and must be a non-empty string.''))])"
proof (cases "dbInitializationPromise sv")
  case Fulfilled
  from assms(2) have "\<forall>s. get_property (body req) (js ''newMessage'') = JStr s \<longrightarrow> trim s = []"
    by (simp add: trim_Nil_iff)
  then have "handler req err sv =
     (Response 400
        (error_body ''Bad Request''
           (js ''newMessage is required and must be a non-empty string.'')), sv)"
    using assms(1) Fulfilled by (simp add: handler_POST post_message_invalid)
  then show ?thesis
    by (simp add: error_body_def)
next
  case (Rejected m)
  then show ?thesis
    by (simp add: handler_Rejected)
qed

theorem invalid_newMessage_rejected_witness:
  "req_method \<lparr>req_method = POST, body = [(js ''newMessage'', JStr (js ''   ''))]\<rparr> = POST
   \<and> get_property (body \<lparr>req_method = POST, body = [(js ''newMessage'', JStr (js ''   ''))]\<rparr>)
         (js ''newMessage'') = JStr (js ''   '')
   \<and> list_all isWhiteSpace (js ''   '')
   \<and> dbInitializationPromise
        \<lparr>messages = Some [(1, default_message)], dbInitializationPromise = Fulfilled\<rparr> = Fulfilled
   \<and> handler \<lparr>req_method = POST, body = [(js ''newMessage'', JStr (js ''   ''))]\<rparr> None
        \<lparr>messages = Some [(1, default_message)], dbInitializationPromise = Fulfilled\<rparr>
       = (Response 400
            (JObj [(js ''error'', JStr (js ''Bad Request'')),
                   (js ''details'',
                    JStr (js ''newMessage is required and must be a non-empty string.''))]),
          \<lparr>messages = Some [(1, default_message)], dbInitializationPromise = Fulfilled\<rparr>)"
proof -
  have ws: "\<forall>s. get_property (body \<lparr>req_method = POST, body = [(js ''newMessage'', JStr (js ''   ''))]\<rparr>)
              (js ''newMessage'') = JStr s \<longrightarrow> (\<forall>c\<in>set s. isWhiteSpace c)"
    by (auto simp add: get_property_def js_def isWhiteSpace_def)
  have m: "req_method \<lparr>req_method = POST, body = [(js ''newMessage'', JStr (js ''   ''))]\<rparr> = POST"
    by simp
  note rejected = invalid_newMessage_rejected
      [OF m ws, of None
         "\<lparr>messages = Some [(1, default_message)], dbInitializationPromise = Fulfilled\<rparr>"]
  from rejected [THEN conjunct1] rejected [THEN conjunct2, THEN conjunct1]
  show ?thesis
    by (simp add: prod_eq_iff get_property_def) (simp add: js_def isWhiteSpace_def)
qed

text \<open>The same on a body without the field, on \<open>null\<close>, on a number and on \<open>""\<close>.\<close>

lemma invalid_newMessage_examples:
  "fst (handler \<lparr>req_method = POST, body = []\<rparr> None
          \<lparr>messages = Some [(1, default_message)], dbInitializationPromise = Fulfilled\<rparr>)
     = Response 400 (error_body ''Bad Request''
         (js ''newMessage is required and must be a non-empty string.''))"
  "fst (handler \<lparr>req_method = POST, body = [(js ''newMessage'', JNull)]\<rparr> None
          \<lparr>messages = Some [(1, default_message)], dbInitializationPromise = Fulfilled\<rparr>)
     = Response 400 (error_body ''Bad Request''
         (js ''newMessage is required and must be a non-empty string.''))"
  "fst (handler \<lparr>req_method = POST, body = [(js ''newMessage'', JNum 42)]\<rparr> None
          \<lparr>messages = Some [(1, default_message)], dbInitializationPromise = Fulfilled\<rparr>)
     = Response 400 (error_body ''Bad Request''
         (js ''newMessage is required and must be a non-empty string.''))"
  "fst (handler \<lparr>req_method = POST, body = [(js ''newMessage'', JStr [])]\<rparr> None
          \<lparr>messages = Some [(1, default_message)], dbInitializationPromise = Fulfilled\<rparr>)
     = Response 400 (error_body ''Bad Request''
         (js ''newMessage is required and must be a non-empty string.''))"
  by (simp_all add: handler_def post_message_def get_property_def trim_def js_def)

subsection \<open>Initialization\<close>

lemma initializeDb_fresh:
  assumes "file = None \<or> file = Some []"
    and "fst (initializeDb fs file) = Fulfilled"
  shows "initializeDb fs file = (Fulfilled, Some [(1, default_message)])"
  using assms
  by (auto simp add: initializeDb_def create_table_def select_count_def insert_row_def
      toWellFormed_default split: option.splits)

lemma initializeDb_nonempty:
  assumes "t \<noteq> []"
  shows "snd (initializeDb fs (Some t)) = Some t"
  using assms
  by (simp add: initializeDb_def create_table_def select_count_def
      split: option.splits)

lemma load_promise: "dbInitializationPromise (load fs file) = fst (initializeDb fs file)"
  by (simp add: load_def split: prod.splits)

lemma load_messages: "messages (load fs file) = snd (initializeDb fs file)"
  by (simp add: load_def split: prod.splits)

lemma load_fresh:
  assumes "file = None \<or> file = Some []"
    and "dbInitializationPromise (load fs file) = Fulfilled"
  shows "load fs file =
           \<lparr>messages = Some [(1, default_message)], dbInitializationPromise = Fulfilled\<rparr>"
  using initializeDb_fresh [OF assms(1), of fs] assms(2)
  by (simp add: load_promise) (simp add: load_def)

text \<open>
  Claim C3. When \<open>initializeDb\<close> has completed on a file that holds no message yet (no
  table, or an empty one), the table holds the default text under id 1 and a GET whose
  read the medium serves answers 200 with \<open>{ message: "Hello Full Stack World!" }\<close>.
  The default is inserted only then: a table that has rows is left as it is.
\<close>

theorem default_after_initialize:
  assumes "dbInitializationPromise (load fs file) = Fulfilled"
    and "req_method req = GET"
  shows "(file = None \<or> file = Some [] \<longrightarrow>
            messages (load fs file) = Some [(1, js ''Hello Full Stack World!'')] \<and>
            fst (handler req None (load fs file)) =
              Response 200 (JObj [(js ''message'', JStr (js ''Hello Full Stack World!''))]))
       \<and> (\<forall>t. file = Some t \<and> t \<noteq> [] \<longrightarrow> messages (load fs file) = Some t)"
proof (intro conjI impI allI)
  assume fresh: "file = None \<or> file = Some []"
  have l: "load fs file =
      \<lparr>messages = Some [(1, default_message)], dbInitializationPromise = Fulfilled\<rparr>"
    using fresh assms(1) by (rule load_fresh)
  show "messages (load fs file) = Some [(1, js ''Hello Full Stack World!'')]"
    by (simp add: l default_message_def)
  show "fst (handler req None (load fs file)) =
      Response 200 (JObj [(js ''message'', JStr (js ''Hello Full Stack World!''))])"
    using assms(2)
    by (simp add: l handler_GET get_message_def select_content_def default_message_def)
next
  fix t
  assume "file = Some t \<and> t \<noteq> []"
  then show "messages (load fs file) = Some t"
    by (simp add: load_messages initializeDb_nonempty)
qed

theorem default_after_initialize_witness:
  "dbInitializationPromise
     (load \<lparr>open_err = None, create_err = None, count_err = None, insert_err = None\<rparr> None)
     = Fulfilled
   \<and> req_method \<lparr>req_method = GET, body = []\<rparr> = GET
   \<and> messages (load \<lparr>open_err = None, create_err = None, count_err = None, insert_err = None\<rparr>
        None) = Some [(1, js ''Hello Full Stack World!'')]
   \<and> fst (handler \<lparr>req_method = GET, body = []\<rparr> None
        (load \<lparr>open_err = None, create_err = None, count_err = None, insert_err = None\<rparr> None))
       = Response 200 (JObj [(js ''message'', JStr (js ''Hello Full Stack World!''))])"
proof -
  have p: "dbInitializationPromise
     (load \<lparr>open_err = None, create_err = None, count_err = None, insert_err = None\<rparr> None)
     = Fulfilled"
    by (simp add: load_def initializeDb_def create_table_def select_count_def insert_row_def)
  show ?thesis
    using default_after_initialize
      [of "\<lparr>open_err = None, create_err = None, count_err = None, insert_err = None\<rparr>" None
          "\<lparr>req_method = GET, body = []\<rparr>", OF p] p
    by simp
qed

text \<open>
  Claim C5. Running \<open>initializeDb\<close> on a file whose message is already set, whatever
  the medium reports to its callbacks, leaves the table and so the stored message
  unchanged.
\<close>

theorem initializeDb_keeps_value:
  assumes "select_content None file = Inr (Some v)"
  shows "snd (initializeDb fs file) = file
       \<and> select_content None (snd (initializeDb fs file)) = Inr (Some v)"
proof -
  from assms obtain t where t: "file = Some t" and "map_of t 1 = Some v"
    by (auto simp add: select_content_def split: option.splits)
  then have "t \<noteq> []"
    by auto
  then have "snd (initializeDb fs file) = file"
    by (simp add: t initializeDb_nonempty)
  then show ?thesis
    using assms by simp
qed

theorem initializeDb_keeps_value_witness:
  "select_content None (Some [(1, js ''Hi there'')]) = Inr (Some (js ''Hi there''))
   \<and> snd (initializeDb \<lparr>open_err = None, create_err = None, count_err = None, insert_err = None\<rparr>
        (Some [(1, js ''Hi there'')])) = Some [(1, js ''Hi there'')]
   \<and> select_content None
        (snd (initializeDb \<lparr>open_err = None, create_err = None, count_err = None, insert_err = None\<rparr>
        (Some [(1, js ''Hi there'')]))) = Inr (Some (js ''Hi there''))"
proof -
  have h: "select_content None (Some [(1, js ''Hi there'')]) = Inr (Some (js ''Hi there''))"
    by (simp add: select_content_def)
  show ?thesis
    using initializeDb_keeps_value
      [OF h, of "\<lparr>open_err = None, create_err = None, count_err = None, insert_err = None\<rparr>"] h
    by simp
qed

subsection \<open>The responses of the two routes\<close>

text \<open>
  Claim C6. Once initialization has succeeded, a POST whose \<open>newMessage\<close> is a string
  \<open>s\<close>, non-empty after trimming, and whose write the medium accepts, answers 200 with
  \<open>{ status: "success", message: "Message updated successfully", updatedMessage: s.trim() }\<close>.
  Here \<open>s.trim()\<close> is the trimmed input: \<open>s\<close> is \<open>s.trim()\<close> between two runs of whitespace,
  and \<open>s.trim()\<close> neither starts nor ends with whitespace. The write is an upsert: the
  table \<open>t\<close> before it is arbitrary, with or without a row of id 1, and after it the row of
  id 1 is there once, holding the text stored for \<open>s.trim()\<close>, with every other row kept.
\<close>

theorem post_valid_success:
  assumes "req_method req = POST"
    and "get_property (body req) (js ''newMessage'') = JStr s"
    and "trim s \<noteq> []"
    and "dbInitializationPromise sv = Fulfilled"
    and "messages sv = Some t"
  shows "fst (handler req None sv) =
           Response 200
             (JObj [(js ''status'', JStr (js ''success'')),
                    (js ''message'', JStr (js ''Message updated successfully'')),
                    (js ''updatedMessage'', JStr (trim s))])
       \<and> (\<exists>a b. s = a @ trim s @ b \<and> list_all isWhiteSpace a \<and> list_all isWhiteSpace b)
       \<and> \<not> isWhiteSpace (hd (trim s))
       \<and> \<not> isWhiteSpace (last (trim s))
       \<and> snd (handler req None sv) =
           sv\<lparr>messages := Some (filter (\<lambda>r. fst r \<noteq> 1) t @ [(1, toWellFormed (trim s))])\<rparr>
       \<and> select_content None (messages (snd (handler req None sv))) =
           Inr (Some (toWellFormed (trim s)))"
proof -
  have "map_of (filter (\<lambda>r. fst r \<noteq> 1) t @ [(1, toWellFormed (trim s))]) 1 =
      Some (toWellFormed (trim s))"
    by (rule map_of_replaced)
  then have "fst (handler req None sv) =
           Response 200
             (JObj [(js ''status'', JStr (js ''success'')),
                    (js ''message'', JStr (js ''Message updated successfully'')),
                    (js ''updatedMessage'', JStr (trim s))])
       \<and> snd (handler req None sv) =
           sv\<lparr>messages := Some (filter (\<lambda>r. fst r \<noteq> 1) t @ [(1, toWellFormed (trim s))])\<rparr>
       \<and> select_content None (messages (snd (handler req None sv))) =
           Inr (Some (toWellFormed (trim s)))"
    using assms
    by (simp add: handler_POST post_valid select_content_def del: map_of_append)
  moreover have "\<exists>a b. s = a @ trim s @ b \<and> list_all isWhiteSpace a \<and> list_all isWhiteSpace b"
    by (rule trim_decompose)
  moreover have "\<not> isWhiteSpace (hd (trim s)) \<and> \<not> isWhiteSpace (last (trim s))"
    using assms(3) by (rule trim_ends)
  ultimately show ?thesis
    by blast
qed

theorem post_valid_success_witness:
  "req_method \<lparr>req_method = POST, body = [(js ''newMessage'', JStr (js ''  Hi there ''))]\<rparr> = POST
   \<and> get_property (body \<lparr>req_method = POST, body = [(js ''newMessage'', JStr (js ''  Hi there ''))]\<rparr>)
         (js ''newMessage'') = JStr (js ''  Hi there '')
   \<and> trim (js ''  Hi there '') \<noteq> []
   \<and> dbInitializationPromise
        \<lparr>messages = Some [(2, js ''other'')], dbInitializationPromise = Fulfilled\<rparr> = Fulfilled
   \<and> messages \<lparr>messages = Some [(2, js ''other'')], dbInitializationPromise = Fulfilled\<rparr>
        = Some [(2, js ''other'')]
   \<and> handler \<lparr>req_method = POST, body = [(js ''newMessage'', JStr (js ''  Hi there ''))]\<rparr> None
         \<lparr>messages = Some [(2, js ''other'')], dbInitializationPromise = Fulfilled\<rparr>
       = (Response 200
            (JObj [(js ''status'', JStr (js ''success'')),
                   (js ''message'', JStr (js ''Message updated successfully'')),
                   (js ''updatedMessage'', JStr (js ''Hi there''))]),
          \<lparr>messages = Some [(2, js ''other''), (1, js ''Hi there'')],
           dbInitializationPromise = Fulfilled\<rparr>)"
proof -
  have tr: "trim (js ''  Hi there '') = js ''Hi there''"
    by (simp add: trim_def js_def isWhiteSpace_def)
  have wf: "toWellFormed (js ''Hi there'') = js ''Hi there''"
    by (simp add: js_def isLeadingSurrogate_def isTrailingSurrogate_def)
  have m: "req_method \<lparr>req_method = POST, body = [(js ''newMessage'', JStr (js ''  Hi there ''))]\<rparr> = POST"
    by simp
  have gp: "get_property (body \<lparr>req_method = POST, body = [(js ''newMessage'', JStr (js ''  Hi there ''))]\<rparr>)
         (js ''newMessage'') = JStr (js ''  Hi there '')"
    by (simp add: get_property_def)
  have ne: "trim (js ''  Hi there '') \<noteq> []"
    by (simp add: tr) (simp add: js_def)
  have f: "dbInitializationPromise
        \<lparr>messages = Some [(2, js ''other'')], dbInitializationPromise = Fulfilled\<rparr> = Fulfilled"
    by simp
  have t: "messages \<lparr>messages = Some [(2, js ''other'')], dbInitializationPromise = Fulfilled\<rparr>
        = Some [(2, js ''other'')]"
    by simp
  note success = post_valid_success [OF m gp ne f t]
  from success [THEN conjunct1]
    success [THEN conjunct2, THEN conjunct2, THEN conjunct2, THEN conjunct2, THEN conjunct1]
    gp ne
  show ?thesis
    by (simp add: prod_eq_iff tr wf)
qed

text \<open>The same request on a table that has the row of id 1 replaces its content.\<close>

lemma post_replaces_row:
  "handler \<lparr>req_method = POST, body = [(js ''newMessage'', JStr (js ''  Hi there ''))]\<rparr> None
         \<lparr>messages = Some [(1, default_message)], dbInitializationPromise = Fulfilled\<rparr>
       = (Response 200
            (JObj [(js ''status'', JStr (js ''success'')),
                   (js ''message'', JStr (js ''Message updated successfully'')),
                   (js ''updatedMessage'', JStr (js ''Hi there''))]),
          \<lparr>messages = Some [(1, js ''Hi there'')], dbInitializationPromise = Fulfilled\<rparr>)"
proof -
  have tr: "trim (js ''  Hi there '') = js ''Hi there''"
    by (simp add: trim_def js_def isWhiteSpace_def)
  have wf: "toWellFormed (js ''Hi there'') = js ''Hi there''"
    by (simp add: js_def isLeadingSurrogate_def isTrailingSurrogate_def)
  have ne: "js ''Hi there'' \<noteq> []"
    by (simp add: js_def)
  show ?thesis
    by (simp add: handler_def post_message_def get_property_def insert_or_replace_def tr wf ne)
qed

text \<open>
  Claim C7. A GET whose read succeeds and finds no row of id 1 answers 404 with a body
  of an \<open>error\<close> and a \<open>details\<close> field that describe the missing row.
\<close>

theorem get_not_found:
  assumes "req_method req = GET"
    and "dbInitializationPromise sv = Fulfilled"
    and "select_content err (messages sv) = Inr None"
  shows "handler req err sv =
           (Response 404
              (JObj [(js ''error'', JStr (js ''Message not found'')),
                     (js ''details'',
                      JStr (js ''No message found with ID 1. Database might be uninitialized or corrupted.''))]),
            sv)"
  using assms by (simp add: handler_GET get_message_def error_body_def)

theorem get_not_found_witness:
  "req_method \<lparr>req_method = GET, body = []\<rparr> = GET
   \<and> dbInitializationPromise \<lparr>messages = Some [], dbInitializationPromise = Fulfilled\<rparr>
        = Fulfilled
   \<and> select_content None (messages \<lparr>messages = Some [], dbInitializationPromise = Fulfilled\<rparr>)
        = Inr None
   \<and> handler \<lparr>req_method = GET, body = []\<rparr> None
        \<lparr>messages = Some [], dbInitializationPromise = Fulfilled\<rparr>
       = (Response 404
            (JObj [(js ''error'', JStr (js ''Message not found'')),
                   (js ''details'',
                    JStr (js ''No message found with ID 1. Database might be uninitialized or corrupted.''))]),
          \<lparr>messages = Some [], dbInitializationPromise = Fulfilled\<rparr>)"
proof -
  have h: "select_content None (messages \<lparr>messages = Some [], dbInitializationPromise = Fulfilled\<rparr>)
        = Inr None"
    by (simp add: select_content_def)
  show ?thesis
    using get_not_found
      [of "\<lparr>req_method = GET, body = []\<rparr>"
          "\<lparr>messages = Some [], dbInitializationPromise = Fulfilled\<rparr>" None, OF _ _ h] h
    by simp
qed

subsection \<open>GET reads only\<close>

text \<open>
  Claim C9. Handling a GET leaves the server, and with it the table, as it was, whatever
  the state and whatever the medium reports; so a request that changes the state is a POST.
\<close>

theorem get_does_not_mutate:
  assumes "req_method req = GET"
  shows "snd (handler req err sv) = sv"
proof (cases "dbInitializationPromise sv")
  case Fulfilled
  with assms show ?thesis
    by (simp add: handler_GET get_message_state)
next
  case (Rejected m)
  then show ?thesis
    by (simp add: handler_Rejected)
qed

theorem get_does_not_mutate_witness:
  "req_method \<lparr>req_method = GET, body = []\<rparr> = GET
   \<and> snd (handler \<lparr>req_method = GET, body = []\<rparr> None
        \<lparr>messages = Some [(1, js ''Hi there'')], dbInitializationPromise = Fulfilled\<rparr>)
       = \<lparr>messages = Some [(1, js ''Hi there'')], dbInitializationPromise = Fulfilled\<rparr>"
  using get_does_not_mutate
    [of "\<lparr>req_method = GET, body = []\<rparr>" None
        "\<lparr>messages = Some [(1, js ''Hi there'')], dbInitializationPromise = Fulfilled\<rparr>"]
  by simp

lemma get_message_reads_row:
  assumes "dbInitializationPromise sv' = dbInitializationPromise sv"
    and "select_content err (messages sv') = select_content err (messages sv)"
  shows "fst (get_message r2 err sv') = fst (get_message r1 err sv)"
  using assms
  by (simp add: get_message_def split: promise.splits sum.splits option.splits)

text \<open>
  Claim C10. Two GET requests, whatever they carry, handled one after the other on the
  same state with the medium reporting the same to both, get the same response. The
  response depends on the state only through the initialization promise and the row of id 1.
\<close>

theorem get_deterministic:
  assumes "req_method r1 = GET" and "req_method r2 = GET"
  shows "fst (handler r2 err (snd (handler r1 err sv))) = fst (handler r1 err sv)
       \<and> (\<forall>sv'. dbInitializationPromise sv' = dbInitializationPromise sv \<and>
                 select_content err (messages sv') = select_content err (messages sv) \<longrightarrow>
                 fst (handler r2 err sv') = fst (handler r1 err sv))"
proof -
  have same: "fst (handler r2 err sv') = fst (handler r1 err sv)"
    if "dbInitializationPromise sv' = dbInitializationPromise sv"
      and "select_content err (messages sv') = select_content err (messages sv)" for sv'
  proof (cases "dbInitializationPromise sv")
    case Fulfilled
    with that assms show ?thesis
      by (simp add: handler_GET get_message_reads_row [of sv' sv err r2 r1])
  next
    case (Rejected m)
    with that show ?thesis
      by (simp add: handler_Rejected)
  qed
  have "snd (handler r1 err sv) = sv"
  proof (cases "dbInitializationPromise sv")
    case Fulfilled
    with assms show ?thesis
      by (simp add: handler_GET get_message_state)
  next
    case (Rejected m)
    then show ?thesis
      by (simp add: handler_Rejected)
  qed
  with same show ?thesis
    by simp
qed

theorem get_deterministic_witness:
  "req_method \<lparr>req_method = GET, body = []\<rparr> = GET
   \<and> req_method \<lparr>req_method = GET, body = [(js ''newMessage'', JStr (js ''B''))]\<rparr> = GET
   \<and> dbInitializationPromise \<lparr>messages = Some [(1, js ''A'')], dbInitializationPromise = Fulfilled\<rparr>
       = dbInitializationPromise
           \<lparr>messages = Some [(1, js ''A''), (2, js ''B'')], dbInitializationPromise = Fulfilled\<rparr>
   \<and> select_content None
         (messages \<lparr>messages = Some [(1, js ''A'')], dbInitializationPromise = Fulfilled\<rparr>)
       = select_content None
           (messages \<lparr>messages = Some [(1, js ''A''), (2, js ''B'')],
                       dbInitializationPromise = Fulfilled\<rparr>)
   \<and> fst (handler \<lparr>req_method = GET, body = [(js ''newMessage'', JStr (js ''B''))]\<rparr> None
        (snd (handler \<lparr>req_method = GET, body = []\<rparr> None
           \<lparr>messages = Some [(1, js ''A''), (2, js ''B'')], dbInitializationPromise = Fulfilled\<rparr>)))
       = fst (handler \<lparr>req_method = GET, body = []\<rparr> None
           \<lparr>messages = Some [(1, js ''A''), (2, js ''B'')], dbInitializationPromise = Fulfilled\<rparr>)
   \<and> fst (handler \<lparr>req_method = GET, body = [(js ''newMessage'', JStr (js ''B''))]\<rparr> None
        \<lparr>messages = Some [(1, js ''A'')], dbInitializationPromise = Fulfilled\<rparr>)
       = fst (handler \<lparr>req_method = GET, body = []\<rparr> None
           \<lparr>messages = Some [(1, js ''A''), (2, js ''B'')], dbInitializationPromise = Fulfilled\<rparr>)"
proof -
  have h: "select_content None
         (messages \<lparr>messages = Some [(1, js ''A'')], dbInitializationPromise = Fulfilled\<rparr>)
       = select_content None
           (messages \<lparr>messages = Some [(1, js ''A''), (2, js ''B'')],
                       dbInitializationPromise = Fulfilled\<rparr>)"
    by (simp add: select_content_def)
  show ?thesis
    using get_deterministic
      [of "\<lparr>req_method = GET, body = []\<rparr>"
          "\<lparr>req_method = GET, body = [(js ''newMessage'', JStr (js ''B''))]\<rparr>" None
          "\<lparr>messages = Some [(1, js ''A''), (2, js ''B'')], dbInitializationPromise = Fulfilled\<rparr>"] h
    by simp
qed

subsection \<open>The single non-empty message\<close>

lemma default_message_nonempty: "default_message \<noteq> []"
  by (simp add: default_message_def js_def)

lemma single_message_iff:
  "single_message tab \<longleftrightarrow> (\<exists>c. tab = Some [(1, c)] \<and> c \<noteq> [])"
  by (induction tab rule: single_message.induct) auto

lemma post_message_single:
  assumes "single_message (messages sv)"
  shows "single_message (messages (snd (post_message req err sv)))"
proof -
  from assms obtain c where "messages sv = Some [(1, c)]" and "c \<noteq> []"
    by (auto simp add: single_message_iff)
  then show ?thesis
    by (simp add: post_message_def insert_or_replace_def toWellFormed_Nil_iff
        split: promise.splits jsvalue.splits option.splits)
qed

lemma handler_single:
  assumes "single_message (messages sv)"
  shows "single_message (messages (snd (handler req err sv)))"
proof (cases "dbInitializationPromise sv")
  case Fulfilled
  show ?thesis
  proof (cases "req_method req")
    case GET
    with Fulfilled assms show ?thesis
      by (simp add: handler_GET get_message_state)
  next
    case POST
    with Fulfilled assms show ?thesis
      by (simp add: handler_POST post_message_single)
  qed
next
  case (Rejected m)
  with assms show ?thesis
    by (simp add: handler_Rejected)
qed

lemma run_single:
  "single_message (messages sv) \<Longrightarrow> single_message (messages (run reqs sv))"
proof (induction reqs arbitrary: sv)
  case Nil
  then show ?case by simp
next
  case (Cons a reqs)
  obtain req err where a: "a = (req, err)"
    by (cases a)
  from Cons.prems have "single_message (messages (snd (handler req err sv)))"
    by (rule handler_single)
  then show ?case
    by (simp add: a Cons.IH)
qed

lemma initializeDb_single:
  assumes "single_message file"
  shows "snd (initializeDb fs file) = file"
proof -
  from assms obtain c where "file = Some [(1, c)]"
    by (auto simp add: single_message_iff)
  then show ?thesis
    by (simp add: initializeDb_nonempty)
qed

text \<open>
  Claim C8. After an initialization that succeeded on a file holding no message yet, or
  holding the single message already, every sequence of GET and POST requests, whatever
  they carry and whatever the medium reports, leaves a table of exactly one row, of id 1
  and with a non-empty content; running \<open>initializeDb\<close> again keeps it so.
\<close>

theorem single_message_invariant:
  assumes "file = None \<or> file = Some [] \<or> single_message file"
    and "dbInitializationPromise (load fs file) = Fulfilled"
  shows "single_message (messages (run reqs (load fs file)))
       \<and> single_message (snd (initializeDb fs' (messages (run reqs (load fs file)))))"
proof -
  have "single_message (messages (load fs file))"
  proof (cases "single_message file")
    case True
    then show ?thesis
      by (simp add: load_messages initializeDb_single)
  next
    case False
    with assms(1) have "file = None \<or> file = Some []"
      by blast
    then have "load fs file =
        \<lparr>messages = Some [(1, default_message)], dbInitializationPromise = Fulfilled\<rparr>"
      using assms(2) by (rule load_fresh)
    then show ?thesis
      by (simp add: default_message_nonempty)
  qed
  then have "single_message (messages (run reqs (load fs file)))"
    by (rule run_single)
  then show ?thesis
    by (simp add: initializeDb_single)
qed

theorem single_message_invariant_witness:
  "((None :: table option) = None \<or> (None :: table option) = Some [] \<or> single_message None)
   \<and> dbInitializationPromise
        (load \<lparr>open_err = None, create_err = None, count_err = None, insert_err = None\<rparr> None)
       = Fulfilled
   \<and> single_message (messages
        (run [(\<lparr>req_method = POST, body = [(js ''newMessage'', JStr (js '' A ''))]\<rparr>, None),
              (\<lparr>req_method = POST, body = [(js ''newMessage'', JStr (js ''  ''))]\<rparr>, None),
              (\<lparr>req_method = GET, body = []\<rparr>, None)]
           (load \<lparr>open_err = None, create_err = None, count_err = None, insert_err = None\<rparr> None)))
   \<and> messages
        (run [(\<lparr>req_method = POST, body = [(js ''newMessage'', JStr (js '' A ''))]\<rparr>, None),
              (\<lparr>req_method = POST, body = [(js ''newMessage'', JStr (js ''  ''))]\<rparr>, None),
              (\<lparr>req_method = GET, body = []\<rparr>, None)]
           (load \<lparr>open_err = None, create_err = None, count_err = None, insert_err = None\<rparr> None))
       = Some [(1, js ''A'')]"
proof -
  have p: "dbInitializationPromise
     (load \<lparr>open_err = None, create_err = None, count_err = None, insert_err = None\<rparr> None)
     = Fulfilled"
    by (simp add: load_def initializeDb_def create_table_def select_count_def insert_row_def)
  have r: "messages
        (run [(\<lparr>req_method = POST, body = [(js ''newMessage'', JStr (js '' A ''))]\<rparr>, None),
              (\<lparr>req_method = POST, body = [(js ''newMessage'', JStr (js ''  ''))]\<rparr>, None),
              (\<lparr>req_method = GET, body = []\<rparr>, None)]
           (load \<lparr>open_err = None, create_err = None, count_err = None, insert_err = None\<rparr> None))
       = Some [(1, js ''A'')]"
    by (simp add: load_def initializeDb_def create_table_def select_count_def insert_row_def
        handler_def post_message_def get_message_def get_property_def insert_or_replace_def
        select_content_def trim_def js_def isWhiteSpace_def default_message_def
        isLeadingSurrogate_def isTrailingSurrogate_def)
  show ?thesis
    using single_message_invariant
      [of None "\<lparr>open_err = None, create_err = None, count_err = None, insert_err = None\<rparr>"
          "[(\<lparr>req_method = POST, body = [(js ''newMessage'', JStr (js '' A ''))]\<rparr>, None),
              (\<lparr>req_method = POST, body = [(js ''newMessage'', JStr (js ''  ''))]\<rparr>, None),
              (\<lparr>req_method = GET, body = []\<rparr>, None)]", OF _ p] p r
    by simp
qed

subsection \<open>Failures of the store\<close>

text \<open>
  A failed read and a failed write answer 500 with \<open>error\<close> and \<open>details\<close>, and no
  request to which the medium reports an error is answered with 200.
\<close>

lemma read_failure_500:
  assumes "req_method req = GET" and "dbInitializationPromise sv = Fulfilled"
  shows "handler req (Some m) sv = (Response 500 (error_body ''Failed to retrieve message'' m), sv)"
  using assms by (simp add: handler_GET get_message_def select_content_def)

lemma write_failure_500:
  assumes "req_method req = POST" and "dbInitializationPromise sv = Fulfilled"
    and "get_property (body req) (js ''newMessage'') = JStr s" and "trim s \<noteq> []"
  shows "handler req (Some m) sv = (Response 500 (error_body ''Failed to update message'' m), sv)"
  using assms by (simp add: handler_POST post_message_def insert_or_replace_def)

lemma no_200_on_failure: "fst (handler req (Some m) sv) \<noteq> Response 200 b"
  by (cases "req_method req")
    (simp_all add: handler_def get_message_def post_message_def select_content_def
      insert_or_replace_def split: promise.splits jsvalue.splits)

text \<open>
  Claim C4. A failed initialization is to answer 500 with \<open>error\<close> and \<open>details\<close> as the
  failed read and the failed write do. The exported \<open>handler\<close> does not: when the file
  cannot be opened, a GET is given no response, the handler's promise is rejected with
  the error of \<open>initializeDb\<close>.
\<close>

theorem failed_initialization_no_response:
  "handler \<lparr>req_method = GET, body = []\<rparr> None
     (load \<lparr>open_err = Some (js ''SQLITE_CANTOPEN: unable to open database file''),
             create_err = None, count_err = None, insert_err = None\<rparr> None)
   = (Throws (js ''Failed to open database: SQLITE_CANTOPEN: unable to open database file''),
      \<lparr>messages = None,
       dbInitializationPromise =
         Rejected (js ''Failed to open database: SQLITE_CANTOPEN: unable to open database file'')\<rparr>)"
  by (simp add: handler_def load_def initializeDb_def js_def)

text \<open>
  The \<open>catch\<close> blocks of the two routes do map a rejected initialization to 500; the
  exported \<open>handler\<close> never lets a request reach them in that state.
\<close>

lemma route_catch_on_failed_initialization:
  "get_message req err \<lparr>messages = file, dbInitializationPromise = Rejected m\<rparr>
     = (Response 500 (error_body ''Failed to retrieve message'' m),
        \<lparr>messages = file, dbInitializationPromise = Rejected m\<rparr>)"
  "post_message req err \<lparr>messages = file, dbInitializationPromise = Rejected m\<rparr>
     = (Response 500 (error_body ''Failed to update message'' m),
        \<lparr>messages = file, dbInitializationPromise = Rejected m\<rparr>)"
  by (simp_all add: get_message_def post_message_def)

end
